theory Spec2Isabelle
  imports Main
begin

section \<open>Data model (core/models.py)\<close>

text \<open>
  Primary keys are UUIDs; they are modelled by their textual form, so that
  \<^verbatim>\<open>str(report.report_id)\<close> is the key itself. A \<^verbatim>\<open>DateTimeField\<close> is an integer number
  of microseconds. A nullable column is an \<open>option\<close>. The store enforces foreign keys:
  \<^verbatim>\<open>product.supplier.supplier_id\<close> is the \<^verbatim>\<open>supplier_id\<close> column of the product row.
  The columns \<^verbatim>\<open>created_at\<close>, \<^verbatim>\<open>updated_at\<close>, \<^verbatim>\<open>metadata\<close> and the generated keys of
  history and notification rows are left out: no workflow operation reads them.
\<close>

type_synonym uuid = string
type_synonym datetime = int

record supplier =
  supplier_id :: uuid
  username :: string
  is_staff :: bool

record product =
  product_id :: uuid
  product_supplier :: uuid
  name :: string
  category :: string
  submission_status :: string
  submission_date :: "datetime option"
  review_date :: "datetime option"
  completion_date :: "datetime option"

record test =
  test_id :: uuid
  test_product :: uuid
  test_type :: string
  test_name :: string
  status :: string
  priority :: string
  scheduled_date :: "datetime option"
  started_at :: "datetime option"
  completed_at :: "datetime option"
  result_summary :: "string option"
  result_status :: "string option"
  result_data :: string

record test_history =
  history_test :: uuid
  changed_by :: string
  change_type :: string
  old_status :: "string option"
  new_status :: "string option"
  change_description :: "string option"

record report =
  report_id :: uuid
  report_product :: uuid
  report_type :: string
  report_format :: string
  report_url :: "string option"
  s3_key :: "string option"
  report_status :: string
  generated_at :: "datetime option"
  expires_at :: "datetime option"

record notification =
  recipient_id :: uuid
  recipient_type :: string
  notification_type :: string
  subject :: string
  message :: string
  notification_status :: string
  sent_at :: "datetime option"

text \<open>
  The entity store. Tables with a primary key the code looks up are maps from the key;
  the two append-only tables are lists in creation order (the newest row last).
\<close>

record db =
  products :: "uuid \<rightharpoonup> product"
  tests :: "uuid \<rightharpoonup> test"
  history :: "test_history list"
  reports :: "uuid \<rightharpoonup> report"
  notifications :: "notification list"

section \<open>Requests and responses (core/views.py)\<close>

text \<open>
  Every view set has \<^verbatim>\<open>permission_classes = [IsAuthenticated]\<close>, so an action body runs
  for an authenticated principal only: \<^verbatim>\<open>request.user\<close> is a Supplier row.
  \<^verbatim>\<open>request.query_params\<close> and \<^verbatim>\<open>request.data\<close> are dictionaries of strings.
\<close>

record request =
  user :: supplier
  query_params :: "string \<rightharpoonup> string"
  data :: "string \<rightharpoonup> string"

text \<open>
  The error responses of the views: \<open>NotFound\<close> is the \<^verbatim>\<open>Http404\<close> of \<^verbatim>\<open>get_object\<close>,
  \<open>PermissionDenied\<close> the exception of \<^verbatim>\<open>ProductFileViewSet.perform_create\<close>,
  the other three are the \<^verbatim>\<open>'code'\<close> of the error bodies returned with status 400.
\<close>

datatype error = NotFound | PermissionDenied | INVALID_STATE | VALIDATION_ERROR | NOT_READY

text \<open>Python's truth value of \<^verbatim>\<open>d.get(key)\<close>: \<^verbatim>\<open>None\<close> and the empty string are false.\<close>

definition truthy :: "string option \<Rightarrow> bool" where
  "truthy v = (case v of None \<Rightarrow> False | Some s \<Rightarrow> s \<noteq> [])"

text \<open>\<^verbatim>\<open>queryset.filter(field=value)\<close> applied only \<^verbatim>\<open>if value:\<close>.\<close>

definition filter_param :: "string option \<Rightarrow> string \<Rightarrow> bool" where
  "filter_param v field = (if truthy v then v = Some field else True)"

text \<open>An f-string field: \<^verbatim>\<open>f'{v}'\<close> of \<^verbatim>\<open>None\<close> is the text \<^verbatim>\<open>None\<close>.\<close>

definition fmt :: "string option \<Rightarrow> string" where
  "fmt v = (case v of None \<Rightarrow> ''None'' | Some s \<Rightarrow> s)"

text \<open>
  \<^verbatim>\<open>obj.save()\<close> writes the row under its primary key;
  \<^verbatim>\<open>Model.objects.create(...)\<close> on the two append-only tables adds a row at the end.
\<close>

definition save_product :: "product \<Rightarrow> db \<Rightarrow> db" where
  "save_product p d = d\<lparr>products := (products d)(product_id p \<mapsto> p)\<rparr>"

definition save_test :: "test \<Rightarrow> db \<Rightarrow> db" where
  "save_test t d = d\<lparr>tests := (tests d)(test_id t \<mapsto> t)\<rparr>"

definition save_report :: "report \<Rightarrow> db \<Rightarrow> db" where
  "save_report r d = d\<lparr>reports := (reports d)(report_id r \<mapsto> r)\<rparr>"

definition create_history :: "test_history \<Rightarrow> db \<Rightarrow> db" where
  "create_history h d = d\<lparr>history := history d @ [h]\<rparr>"

definition create_notification :: "notification \<Rightarrow> db \<Rightarrow> db" where
  "create_notification n d = d\<lparr>notifications := notifications d @ [n]\<rparr>"

subsection \<open>ProductViewSet\<close>

definition product_get_queryset :: "request \<Rightarrow> product \<Rightarrow> bool" where
  "product_get_queryset request p =
     ((if \<not> is_staff (user request) then product_supplier p = supplier_id (user request) else True)
      \<and> filter_param (query_params request ''status'') (submission_status p)
      \<and> filter_param (query_params request ''category'') (category p))"

definition product_get_object :: "request \<Rightarrow> uuid \<Rightarrow> db \<Rightarrow> error + product" where
  "product_get_object request pk d =
     (case products d pk of
        None \<Rightarrow> Inl NotFound
      | Some p \<Rightarrow> if product_get_queryset request p then Inr p else Inl NotFound)"

text \<open>The row \<^verbatim>\<open>submit\<close> passes to \<^verbatim>\<open>Notification.objects.create\<close>.\<close>

definition product_submitted :: "product \<Rightarrow> datetime \<Rightarrow> notification" where
  "product_submitted p now =
     \<lparr>recipient_id = product_supplier p,
      recipient_type = ''supplier'',
      notification_type = ''product_submitted'',
      subject = ''Product Submitted'',
      message = ''Your product \"'' @ name p @ ''\" has been submitted for testing.'',
      notification_status = ''sent'',
      sent_at = Some now\<rparr>"

text \<open>
  \<^verbatim>\<open>ProductViewSet.submit\<close>. \<open>now1\<close> and \<open>now2\<close> are the values of its two calls of
  \<^verbatim>\<open>timezone.now()\<close>. The result is the response and the store after the call.
\<close>

definition submit :: "request \<Rightarrow> uuid \<Rightarrow> datetime \<Rightarrow> datetime \<Rightarrow> db \<Rightarrow> (error + product) \<times> db" where
  "submit request pk now1 now2 d =
     (case product_get_object request pk d of
        Inl e \<Rightarrow> (Inl e, d)
      | Inr p \<Rightarrow>
          if submission_status p \<noteq> ''draft'' then (Inl INVALID_STATE, d)
          else
            let p1 = p\<lparr>submission_status := ''submitted'', submission_date := Some now1\<rparr>;
                d1 = save_product p1 d;
                d2 = create_notification (product_submitted p1 now2) d1
            in (Inr p1, d2))"

subsection \<open>TestViewSet\<close>

text \<open>
  \<^verbatim>\<open>Test.objects.select_related('product')\<close> joins the product row of the (non-null)
  foreign key, so a test is in the queryset together with its product. The queryset has
  no filter on the owner of the product.
\<close>

definition test_get_queryset :: "request \<Rightarrow> test \<Rightarrow> bool" where
  "test_get_queryset request t =
     (filter_param (query_params request ''product_id'') (test_product t)
      \<and> filter_param (query_params request ''status'') (status t)
      \<and> filter_param (query_params request ''type'') (test_type t))"

definition test_get_object :: "request \<Rightarrow> uuid \<Rightarrow> db \<Rightarrow> error + test \<times> product" where
  "test_get_object request pk d =
     (case tests d pk of
        None \<Rightarrow> Inl NotFound
      | Some t \<Rightarrow>
          (case products d (test_product t) of
             None \<Rightarrow> Inl NotFound
           | Some p \<Rightarrow> if test_get_queryset request t then Inr (t, p) else Inl NotFound))"

text \<open>
  The validated data of \<^verbatim>\<open>TestSerializer\<close>: a dictionary with a key for each writable
  field the caller sent. \<open>None\<close> is an absent key; a nullable field that is present
  holds an \<open>option\<close> of its own.
\<close>

record validated_data =
  v_product :: "uuid option"
  v_test_type :: "string option"
  v_test_name :: "string option"
  v_status :: "string option"
  v_priority :: "string option"
  v_scheduled_date :: "datetime option option"
  v_started_at :: "datetime option option"
  v_completed_at :: "datetime option option"
  v_result_summary :: "string option option"
  v_result_status :: "string option option"
  v_result_data :: "string option"

text \<open>\<^verbatim>\<open>for attr, value in validated_data.items(): setattr(instance, attr, value)\<close>\<close>

definition set_attr :: "'a option \<Rightarrow> 'a \<Rightarrow> 'a" where
  "set_attr v old = (case v of None \<Rightarrow> old | Some x \<Rightarrow> x)"

definition set_attrs :: "validated_data \<Rightarrow> test \<Rightarrow> test" where
  "set_attrs vd t =
     t\<lparr>test_product := set_attr (v_product vd) (test_product t),
       test_type := set_attr (v_test_type vd) (test_type t),
       test_name := set_attr (v_test_name vd) (test_name t),
       status := set_attr (v_status vd) (status t),
       priority := set_attr (v_priority vd) (priority t),
       scheduled_date := set_attr (v_scheduled_date vd) (scheduled_date t),
       started_at := set_attr (v_started_at vd) (started_at t),
       completed_at := set_attr (v_completed_at vd) (completed_at t),
       result_summary := set_attr (v_result_summary vd) (result_summary t),
       result_status := set_attr (v_result_status vd) (result_status t),
       result_data := set_attr (v_result_data vd) (result_data t)\<rparr>"

text \<open>
  \<^verbatim>\<open>serializer.save()\<close> on creation: a new row with the model's defaults
  (\<^verbatim>\<open>status='pending'\<close>, \<^verbatim>\<open>priority='medium'\<close>, \<^verbatim>\<open>result_data=dict\<close>) and the validated
  data on top. \<open>new_id\<close> is the value of \<^verbatim>\<open>uuid.uuid4()\<close>. The serializer requires the
  keys \<^verbatim>\<open>product\<close>, \<^verbatim>\<open>test_type\<close> and \<^verbatim>\<open>test_name\<close> on creation.
\<close>

definition serializer_create :: "uuid \<Rightarrow> validated_data \<Rightarrow> test" where
  "serializer_create new_id vd =
     set_attrs vd
       \<lparr>test_id = new_id, test_product = [], test_type = [], test_name = [],
        status = ''pending'', priority = ''medium'', scheduled_date = None,
        started_at = None, completed_at = None, result_summary = None,
        result_status = None, result_data = ''{}''\<rparr>"

text \<open>
  The rows the views pass to \<^verbatim>\<open>TestHistory.objects.create\<close>; a keyword the call leaves
  out is the column's null. Each takes the test object as it is at the time of the call.
\<close>

definition test_created :: "request \<Rightarrow> test \<Rightarrow> test_history" where
  "test_created request t =
     \<lparr>history_test = test_id t,
      changed_by = username (user request),
      change_type = ''test_created'',
      old_status = None,
      new_status = Some (status t),
      change_description = None\<rparr>"

definition test_started :: "request \<Rightarrow> test \<Rightarrow> test_history" where
  "test_started request t =
     \<lparr>history_test = test_id t,
      changed_by = username (user request),
      change_type = ''test_started'',
      old_status = Some ''scheduled'',
      new_status = Some ''in_progress'',
      change_description = None\<rparr>"

definition test_completed :: "request \<Rightarrow> test \<Rightarrow> string option \<Rightarrow> test_history" where
  "test_completed request t result_status_in =
     \<lparr>history_test = test_id t,
      changed_by = username (user request),
      change_type = ''test_completed'',
      old_status = Some (status t),
      new_status = Some ''completed'',
      change_description = Some (''Test completed with '' @ fmt result_status_in @ '' result'')\<rparr>"

text \<open>The row \<^verbatim>\<open>complete\<close> passes to \<^verbatim>\<open>Notification.objects.create\<close>.\<close>

definition test_completed_notification ::
  "test \<Rightarrow> product \<Rightarrow> string option \<Rightarrow> datetime \<Rightarrow> notification" where
  "test_completed_notification t p result_status_in now =
     \<lparr>recipient_id = product_supplier p,
      recipient_type = ''supplier'',
      notification_type = ''test_completed'',
      subject = ''Test Completed: '' @ test_name t,
      message = ''Your product \"'' @ name p @ ''\" has completed '' @ test_name t
                  @ '' with '' @ fmt result_status_in @ '' result.'',
      notification_status = ''sent'',
      sent_at = Some now\<rparr>"

text \<open>\<^verbatim>\<open>TestViewSet.perform_create\<close>\<close>

definition perform_create :: "request \<Rightarrow> uuid \<Rightarrow> validated_data \<Rightarrow> db \<Rightarrow> test \<times> db" where
  "perform_create request new_id vd d =
     (let t = serializer_create new_id vd;
          d1 = save_test t d;
          d2 = create_history (test_created request t) d1
      in (t, d2))"

text \<open>\<^verbatim>\<open>TestViewSet.start\<close>; \<open>now1\<close> is the value of its call of \<^verbatim>\<open>timezone.now()\<close>.\<close>

definition start :: "request \<Rightarrow> uuid \<Rightarrow> datetime \<Rightarrow> db \<Rightarrow> (error + test) \<times> db" where
  "start request pk now1 d =
     (case test_get_object request pk d of
        Inl e \<Rightarrow> (Inl e, d)
      | Inr (t, p) \<Rightarrow>
          if status t \<noteq> ''scheduled'' then (Inl INVALID_STATE, d)
          else
            let t1 = t\<lparr>status := ''in_progress'', started_at := Some now1\<rparr>;
                d1 = save_test t1 d;
                d2 = create_history (test_started request t1) d1
            in (Inr t1, d2))"

text \<open>
  \<^verbatim>\<open>TestViewSet.complete\<close>; \<open>now1\<close> and \<open>now2\<close> are the values of its two calls of
  \<^verbatim>\<open>timezone.now()\<close>. The history row is built after \<^verbatim>\<open>test.status\<close> was assigned, from
  the same object \<open>t1\<close>, as in the source (\<^verbatim>\<open>old_status=test.status\<close>).
\<close>

definition complete :: "request \<Rightarrow> uuid \<Rightarrow> datetime \<Rightarrow> datetime \<Rightarrow> db \<Rightarrow> (error + test) \<times> db" where
  "complete request pk now1 now2 d =
     (case test_get_object request pk d of
        Inl e \<Rightarrow> (Inl e, d)
      | Inr (t, p) \<Rightarrow>
          let result_status_in = data request ''result_status'';
              result_summary_in = data request ''result_summary'';
              result_data_in = set_attr (data request ''result_data'') ''{}''
          in
          if \<not> truthy result_status_in then (Inl VALIDATION_ERROR, d)
          else
            let t1 = t\<lparr>status := ''completed'',
                       result_status := result_status_in,
                       result_summary := result_summary_in,
                       result_data := result_data_in,
                       completed_at := Some now1\<rparr>;
                d1 = save_test t1 d;
                d2 = create_history (test_completed request t1 result_status_in) d1;
                d3 = create_notification (test_completed_notification t1 p result_status_in now2) d2
            in (Inr t1, d3))"

subsection \<open>TestSerializer.update (core/serializers.py)\<close>

text \<open>
  The generic field-update path: the history row is written before
  \<^verbatim>\<open>super().update\<close> sets the attributes and saves the instance.
\<close>

definition status_updated :: "request \<Rightarrow> test \<Rightarrow> validated_data \<Rightarrow> test_history" where
  "status_updated request instance vd =
     \<lparr>history_test = test_id instance,
      changed_by = username (user request),
      change_type = ''status_update'',
      old_status = Some (status instance),
      new_status = v_status vd,
      change_description = None\<rparr>"

definition update :: "request \<Rightarrow> test \<Rightarrow> validated_data \<Rightarrow> db \<Rightarrow> test \<times> db" where
  "update request instance vd d =
     (let d1 = (if v_status vd \<noteq> None \<and> v_status vd \<noteq> Some (status instance)
                then create_history (status_updated request instance vd) d
                else d);
          t1 = set_attrs vd instance
      in (t1, save_test t1 d1))"

text \<open>
  The view of the update path (\<^verbatim>\<open>ModelViewSet.update\<close> of the framework): the instance is
  the object of \<^verbatim>\<open>get_object\<close>.
\<close>

definition test_update_view :: "request \<Rightarrow> uuid \<Rightarrow> validated_data \<Rightarrow> db \<Rightarrow> (error + test) \<times> db" where
  "test_update_view request pk vd d =
     (case test_get_object request pk d of
        Inl e \<Rightarrow> (Inl e, d)
      | Inr (t, p) \<Rightarrow> (case update request t vd d of (t1, d1) \<Rightarrow> (Inr t1, d1)))"

subsection \<open>ReportViewSet\<close>

definition report_get_queryset :: "request \<Rightarrow> report \<Rightarrow> bool" where
  "report_get_queryset request r =
     (filter_param (query_params request ''product_id'') (report_product r)
      \<and> filter_param (query_params request ''status'') (report_status r))"

definition report_get_object :: "request \<Rightarrow> uuid \<Rightarrow> db \<Rightarrow> error + report" where
  "report_get_object request pk d =
     (case reports d pk of
        None \<Rightarrow> Inl NotFound
      | Some r \<Rightarrow>
          (case products d (report_product r) of
             None \<Rightarrow> Inl NotFound
           | Some p \<Rightarrow> if report_get_queryset request r then Inr r else Inl NotFound))"

text \<open>
  The validated data of \<^verbatim>\<open>ReportSerializer\<close> on creation (\<^verbatim>\<open>status\<close> and
  \<^verbatim>\<open>generated_at\<close> are read-only fields, \<^verbatim>\<open>expires_at\<close> is not).
\<close>

record report_data =
  r_product :: uuid
  r_report_type :: string
  r_report_format :: "string option"
  r_expires_at :: "datetime option"

text \<open>\<^verbatim>\<open>timedelta(days=n)\<close> in microseconds.\<close>

definition timedelta_days :: "int \<Rightarrow> int" where
  "timedelta_days n = n * 86400000000"

text \<open>
  The closure \<^verbatim>\<open>complete_report\<close> of \<^verbatim>\<open>ReportViewSet.perform_create\<close>. It works on the
  report object it captured and calls \<^verbatim>\<open>timezone.now()\<close> twice: \<open>now1\<close> for
  \<^verbatim>\<open>generated_at\<close>, \<open>now2\<close> for \<^verbatim>\<open>expires_at\<close>. The result is the captured object after
  the call and the store after \<^verbatim>\<open>report.save()\<close>.
\<close>

definition complete_report :: "report \<Rightarrow> datetime \<Rightarrow> datetime \<Rightarrow> db \<Rightarrow> report \<times> db" where
  "complete_report r now1 now2 d =
     (let r1 = r\<lparr>report_status := ''completed'',
                 generated_at := Some now1,
                 expires_at := Some (now2 + timedelta_days 30),
                 report_url := Some (''/api/v1/reports/'' @ report_id r @ ''/download'')\<rparr>
      in (r1, save_report r1 d))"

text \<open>
  A started \<^verbatim>\<open>threading.Timer\<close>: its interval in seconds and the report its callback
  captured. \<open>run_timer\<close> is the timer thread calling the callback once the interval is over.
\<close>

record timer =
  interval :: nat
  captured :: report

definition run_timer :: "timer \<Rightarrow> datetime \<Rightarrow> datetime \<Rightarrow> db \<Rightarrow> report \<times> db" where
  "run_timer tm now1 now2 d = complete_report (captured tm) now1 now2 d"

text \<open>\<^verbatim>\<open>ReportViewSet.perform_create\<close>; \<open>new_id\<close> is the value of \<^verbatim>\<open>uuid.uuid4()\<close>.\<close>

definition report_perform_create :: "uuid \<Rightarrow> report_data \<Rightarrow> db \<Rightarrow> report \<times> timer \<times> db" where
  "report_perform_create new_id rd d =
     (let r = \<lparr>report_id = new_id,
               report_product = r_product rd,
               report_type = r_report_type rd,
               report_format = set_attr (r_report_format rd) ''PDF'',
               report_url = None,
               s3_key = None,
               report_status = ''generating'',
               generated_at = None,
               expires_at = r_expires_at rd\<rparr>;
          d1 = save_report r d
      in (r, \<lparr>interval = 5, captured = r\<rparr>, d1))"

text \<open>
  \<^verbatim>\<open>ReportViewSet.status_check\<close>: the report and the \<^verbatim>\<open>download_url\<close> of the response
  (\<^verbatim>\<open>ReportSerializer.get_download_url\<close>, overwritten when the report is completed).
\<close>

definition get_download_url :: "report \<Rightarrow> string option" where
  "get_download_url obj =
     (if report_status obj = ''completed'' \<and> truthy (report_url obj) then report_url obj else None)"

definition status_check :: "request \<Rightarrow> uuid \<Rightarrow> db \<Rightarrow> error + report \<times> string option" where
  "status_check request pk d =
     (case report_get_object request pk d of
        Inl e \<Rightarrow> Inl e
      | Inr r \<Rightarrow>
          Inr (r, if report_status r = ''completed''
                  then Some (''/api/v1/reports/'' @ report_id r @ ''/download'')
                  else get_download_url r))"

text \<open>\<^verbatim>\<open>ReportViewSet.download\<close>: the response body is a dictionary, here its items in order.\<close>

definition download :: "request \<Rightarrow> uuid \<Rightarrow> db \<Rightarrow> error + (string \<times> string) list" where
  "download request pk d =
     (case report_get_object request pk d of
        Inl e \<Rightarrow> Inl e
      | Inr r \<Rightarrow>
          if report_status r \<noteq> ''completed'' then Inl NOT_READY
          else Inr [(''report_id'', report_id r),
                    (''download_url'', ''https://reports-bucket.s3.amazonaws.com/'' @ fmt (s3_key r)),
                    (''expires_in'', ''3600 seconds''),
                    (''message'', ''Use this URL to download the report'')])"

section \<open>The audit trail of a test\<close>

text \<open>The history rows of one test, in creation order.\<close>

definition history_of :: "db \<Rightarrow> uuid \<Rightarrow> test_history list" where
  "history_of d tid = filter (\<lambda>h. history_test h = tid) (history d)"

text \<open>Every row but the first starts from the status the row before it ended in.\<close>

fun chained :: "test_history list \<Rightarrow> bool" where
  "chained [] = True"
| "chained [h] = True"
| "chained (h1 # h2 # hs) = (old_status h2 = new_status h1 \<and> chained (h2 # hs))"

text \<open>A trail without gaps: the first row has no old status and the rows are chained.\<close>

definition gapless :: "test_history list \<Rightarrow> bool" where
  "gapless hs = (case hs of [] \<Rightarrow> True | h # _ \<Rightarrow> old_status h = None \<and> chained hs)"

definition transitions :: "test_history list \<Rightarrow> (string option \<times> string option) list" where
  "transitions hs = map (\<lambda>h. (old_status h, new_status h)) hs"

section \<open>Example data\<close>

definition alice :: supplier where
  "alice = \<lparr>supplier_id = ''s1'', username = ''alice'', is_staff = False\<rparr>"

definition mallory :: supplier where
  "mallory = \<lparr>supplier_id = ''s2'', username = ''mallory'', is_staff = False\<rparr>"

definition request_of :: "supplier \<Rightarrow> (string \<times> string) list \<Rightarrow> request" where
  "request_of u body = \<lparr>user = u, query_params = Map.empty, data = map_of body\<rparr>"

definition widget :: product where
  "widget = \<lparr>product_id = ''p1'', product_supplier = ''s1'', name = ''Widget'',
             category = ''Tools'', submission_status = ''draft'', submission_date = None,
             review_date = None, completion_date = None\<rparr>"

definition drop_test :: "string \<Rightarrow> test" where
  "drop_test st = \<lparr>test_id = ''t1'', test_product = ''p1'', test_type = ''Safety'',
             test_name = ''Drop test'', status = st, priority = ''medium'',
             scheduled_date = None, started_at = None, completed_at = None,
             result_summary = None, result_status = None, result_data = ''{}''\<rparr>"

definition no_data :: validated_data where
  "no_data = \<lparr>v_product = None, v_test_type = None, v_test_name = None, v_status = None,
              v_priority = None, v_scheduled_date = None, v_started_at = None,
              v_completed_at = None, v_result_summary = None, v_result_status = None,
              v_result_data = None\<rparr>"

text \<open>A store with Alice's product only, and stores with one test on it in a given status.\<close>

definition shop :: db where
  "shop = \<lparr>products = [''p1'' \<mapsto> widget], tests = Map.empty, history = [],
           reports = Map.empty, notifications = []\<rparr>"

definition lab :: "string \<Rightarrow> db" where
  "lab st = shop\<lparr>tests := [''t1'' \<mapsto> drop_test st]\<rparr>"

definition pass_body :: "(string \<times> string) list" where
  "pass_body = [(''result_status'', ''pass''), (''result_summary'', ''ok'')]"

text \<open>
  The scenario of a test's life: created, scheduled through the update path, started,
  completed.
\<close>

definition life1 :: db where
  "life1 = snd (perform_create (request_of alice []) ''t1''
                  (no_data\<lparr>v_product := Some ''p1'', v_test_type := Some ''Safety'',
                           v_test_name := Some ''Drop test''\<rparr>) shop)"

definition life2 :: db where
  "life2 = snd (test_update_view (request_of alice []) ''t1''
                  (no_data\<lparr>v_status := Some ''scheduled''\<rparr>) life1)"

definition life3 :: db where
  "life3 = snd (start (request_of alice []) ''t1'' 10 life2)"

definition life4 :: db where
  "life4 = snd (complete (request_of alice pass_body) ''t1'' 20 21 life3)"

definition summary_report :: report where
  "summary_report = \<lparr>report_id = ''r1'', report_product = ''p1'', report_type = ''summary'',
             report_format = ''PDF'', report_url = None, s3_key = None,
             report_status = ''generating'', generated_at = None, expires_at = None\<rparr>"

definition archive :: "string \<Rightarrow> db" where
  "archive st = shop\<lparr>reports := [''r1'' \<mapsto> summary_report\<lparr>report_status := st\<rparr>]\<rparr>"

text \<open>A test that is already completed, completed once more.\<close>

definition again :: db where
  "again = snd (complete (request_of alice pass_body) ''t1'' 20 21 (lab ''completed''))"

text \<open>
  A report ordered on Alice's product; its timer's callback reads the clock at 0 and then
  at 1, a microsecond later.
\<close>

definition order :: report_data where
  "order = \<lparr>r_product = ''p1'', r_report_type = ''summary'', r_report_format = None,
            r_expires_at = None\<rparr>"

definition ordered :: "report \<times> timer \<times> db" where
  "ordered = report_perform_create ''r1'' order shop"

definition fired :: "report \<times> db" where
  "fired = run_timer (fst (snd ordered)) 0 1 (snd (snd ordered))"

section \<open>Properties of the workflow\<close>

lemmas store_defs = save_product_def save_test_def save_report_def create_history_def
  create_notification_def
lemmas param_defs = filter_param_def truthy_def set_attr_def fmt_def
lemmas row_defs = product_submitted_def test_created_def test_started_def test_completed_def
  test_completed_notification_def status_updated_def
lemmas example_defs = alice_def mallory_def request_of_def widget_def drop_test_def no_data_def
  shop_def lab_def pass_body_def summary_report_def archive_def order_def
lemmas view_defs = product_get_object_def product_get_queryset_def test_get_object_def
  test_get_queryset_def report_get_object_def report_get_queryset_def submit_def start_def
  complete_def update_def test_update_view_def perform_create_def serializer_create_def
  set_attrs_def report_perform_create_def complete_report_def run_timer_def download_def

subsection \<open>Completing a test\<close>

text \<open>
  Claim C1. A successful \<^verbatim>\<open>complete\<close> should append one history row whose old status is the
  status the test had before the call. The code builds the row from the test object after
  it assigned \<^verbatim>\<open>test.status = 'completed'\<close>: for a test that is stored as
  \<^verbatim>\<open>in_progress\<close>, the one row appended has the old status \<^verbatim>\<open>completed\<close>.
\<close>

theorem complete_records_new_status_as_old:
  "tests (lab ''in_progress'') ''t1'' = Some (drop_test ''in_progress'')
   \<and> status (drop_test ''in_progress'') = ''in_progress''
   \<and> isl (fst (complete (request_of alice pass_body) ''t1'' 20 21 (lab ''in_progress''))) = False
   \<and> map old_status (history (snd (complete (request_of alice pass_body) ''t1'' 20 21
        (lab ''in_progress'')))) = [Some ''completed'']"
  by (simp add: view_defs Let_def store_defs param_defs row_defs example_defs)

text \<open>
  Claim C2. The history rows of a test, in creation order, should chain: the first has no
  old status and each later row starts from the status the row before it ended in. In the
  life of a test that is created, scheduled, started and completed, the row of
  \<^verbatim>\<open>complete\<close> starts from \<^verbatim>\<open>completed\<close> while the row before it ended in \<^verbatim>\<open>in_progress\<close>.
\<close>

theorem life_history_has_gap:
  "transitions (history_of life4 ''t1'') =
     [(None, Some ''pending''), (Some ''pending'', Some ''scheduled''),
      (Some ''scheduled'', Some ''in_progress''), (Some ''completed'', Some ''completed'')]
   \<and> \<not> gapless (history_of life4 ''t1'')"
  by (simp add: life4_def life3_def life2_def life1_def view_defs Let_def store_defs param_defs
        row_defs example_defs history_of_def transitions_def gapless_def)

text \<open>
  Claim C8. For a test that \<^verbatim>\<open>get_object\<close> finds, \<^verbatim>\<open>complete\<close> answers
  \<^verbatim>\<open>VALIDATION_ERROR\<close> exactly when \<^verbatim>\<open>result_status\<close> is missing or empty, and then the store
  after the call is the store before it.
\<close>

theorem complete_validation_error_iff:
  assumes "test_get_object request pk d = Inr (t, p)"
  shows "(fst (complete request pk now1 now2 d) = Inl VALIDATION_ERROR
            \<longleftrightarrow> data request ''result_status'' = None \<or> data request ''result_status'' = Some [])
    \<and> (data request ''result_status'' = None \<or> data request ''result_status'' = Some []
          \<longrightarrow> complete request pk now1 now2 d = (Inl VALIDATION_ERROR, d))"
  using assms by (auto simp: complete_def Let_def truthy_def split: option.splits)

text \<open>
  Claim C8 at a test in progress: no \<^verbatim>\<open>result_status\<close>, an empty one, and \<^verbatim>\<open>pass\<close>.
\<close>

theorem complete_validation_error_iff_witness:
  "test_get_object (request_of alice []) ''t1'' (lab ''in_progress'') = Inr (drop_test ''in_progress'', widget)
   \<and> complete (request_of alice []) ''t1'' 3 4 (lab ''in_progress'') = (Inl VALIDATION_ERROR, lab ''in_progress'')
   \<and> test_get_object (request_of alice [(''result_status'', '''')]) ''t1'' (lab ''in_progress'')
       = Inr (drop_test ''in_progress'', widget)
   \<and> complete (request_of alice [(''result_status'', '''')]) ''t1'' 3 4 (lab ''in_progress'')
       = (Inl VALIDATION_ERROR, lab ''in_progress'')
   \<and> test_get_object (request_of alice pass_body) ''t1'' (lab ''in_progress'')
       = Inr (drop_test ''in_progress'', widget)
   \<and> fst (complete (request_of alice pass_body) ''t1'' 3 4 (lab ''in_progress'')) \<noteq> Inl VALIDATION_ERROR"
proof -
  have h: "test_get_object (request_of alice b) ''t1'' (lab st) = Inr (drop_test st, widget)" for st b
    by (simp add: test_get_object_def test_get_queryset_def param_defs example_defs)
  show ?thesis
    using complete_validation_error_iff [OF h [of "[]" "''in_progress''"], of 3 4]
      complete_validation_error_iff [OF h [of "[(''result_status'', '''')]" "''in_progress''"], of 3 4]
      complete_validation_error_iff [OF h [of pass_body "''in_progress''"], of 3 4]
      h [of "[]" "''in_progress''"] h [of "[(''result_status'', '''')]" "''in_progress''"]
      h [of pass_body "''in_progress''"]
    by (simp add: request_of_def pass_body_def)
qed

text \<open>
  Claim C10. \<^verbatim>\<open>complete\<close> never answers \<^verbatim>\<open>INVALID_STATE\<close>. For a test that \<^verbatim>\<open>get_object\<close>
  finds, whatever its status, and a non-empty \<^verbatim>\<open>result_status\<close>, the call succeeds: the
  status is \<^verbatim>\<open>completed\<close>, the result fields and \<^verbatim>\<open>completed_at\<close> are overwritten, and one
  more history row and one more notification are appended.
\<close>

theorem complete_no_status_precondition:
  "fst (complete request pk now1 now2 d) \<noteq> Inl INVALID_STATE
   \<and> (test_get_object request pk d = Inr (t, p) \<and> truthy (data request ''result_status'') \<longrightarrow>
        fst (complete request pk now1 now2 d)
          = Inr (t\<lparr>status := ''completed'',
                   result_status := data request ''result_status'',
                   result_summary := data request ''result_summary'',
                   result_data := set_attr (data request ''result_data'') ''{}'',
                   completed_at := Some now1\<rparr>)
        \<and> tests (snd (complete request pk now1 now2 d)) (test_id t)
            = Some (t\<lparr>status := ''completed'',
                   result_status := data request ''result_status'',
                   result_summary := data request ''result_summary'',
                   result_data := set_attr (data request ''result_data'') ''{}'',
                   completed_at := Some now1\<rparr>)
        \<and> (\<exists>h. history (snd (complete request pk now1 now2 d)) = history d @ [h]
               \<and> history_test h = test_id t \<and> change_type h = ''test_completed''
               \<and> new_status h = Some ''completed'')
        \<and> (\<exists>n. notifications (snd (complete request pk now1 now2 d)) = notifications d @ [n]
               \<and> notification_type n = ''test_completed''
               \<and> recipient_id n = product_supplier p))"
  by (auto simp: complete_def Let_def store_defs test_get_object_def test_completed_def
        test_completed_notification_def split: option.splits sum.splits)

text \<open>The store after a completed test was completed once more, used below.\<close>

lemma again_test:
  "test_get_object (request_of alice pass_body) ''t1'' again
     = Inr ((drop_test ''completed'')\<lparr>result_status := Some ''pass'', result_summary := Some ''ok'',
              completed_at := Some 20\<rparr>, widget)"
  by (simp add: again_def view_defs Let_def store_defs param_defs row_defs example_defs)

lemma again_rows: "length (history again) = 1 \<and> length (notifications again) = 1"
  by (simp add: again_def view_defs Let_def store_defs param_defs row_defs example_defs)

text \<open>
  Claim C10 at a test completed twice already: the third call succeeds as well and adds
  a second row to each table of the store \<open>again\<close>.
\<close>

theorem complete_no_status_precondition_witness:
  "test_get_object (request_of alice pass_body) ''t1'' again
     = Inr ((drop_test ''completed'')\<lparr>result_status := Some ''pass'', result_summary := Some ''ok'',
              completed_at := Some 20\<rparr>, widget)
   \<and> truthy (data (request_of alice pass_body) ''result_status'')
   \<and> isl (fst (complete (request_of alice pass_body) ''t1'' 30 31 again)) = False
   \<and> length (history (snd (complete (request_of alice pass_body) ''t1'' 30 31 again))) = 2
   \<and> length (notifications (snd (complete (request_of alice pass_body) ''t1'' 30 31 again))) = 2"
proof -
  have tr: "truthy (data (request_of alice pass_body) ''result_status'')"
    by (simp add: truthy_def request_of_def pass_body_def)
  note c = complete_no_status_precondition [of "request_of alice pass_body" "''t1''" 30 31 again
      "(drop_test ''completed'')\<lparr>result_status := Some ''pass'', result_summary := Some ''ok'',
              completed_at := Some 20\<rparr>" widget]
  from c again_test tr
  have "isl (fst (complete (request_of alice pass_body) ''t1'' 30 31 again)) = False"
    by simp
  moreover from c again_test tr
  obtain h where "history (snd (complete (request_of alice pass_body) ''t1'' 30 31 again))
      = history again @ [h]" by blast
  moreover from c again_test tr
  obtain n where "notifications (snd (complete (request_of alice pass_body) ''t1'' 30 31 again))
      = notifications again @ [n]" by blast
  ultimately show ?thesis using again_rows again_test tr by simp
qed

subsection \<open>Submitting a product\<close>

text \<open>
  Claim C3. For a product that \<^verbatim>\<open>get_object\<close> finds, \<^verbatim>\<open>submit\<close> fails exactly when the
  status is not \<^verbatim>\<open>draft\<close>; it then answers \<^verbatim>\<open>INVALID_STATE\<close> and leaves the store as it was.
  On a draft, the product is stored as \<^verbatim>\<open>submitted\<close> with the submission date of the clock,
  and one notification of type \<^verbatim>\<open>product_submitted\<close> is appended for the product's supplier.
\<close>

theorem submit_iff_draft:
  assumes "product_get_object request pk d = Inr p"
  shows "(isl (fst (submit request pk now1 now2 d)) \<longleftrightarrow> submission_status p \<noteq> ''draft'')
    \<and> (submission_status p \<noteq> ''draft'' \<longrightarrow> submit request pk now1 now2 d = (Inl INVALID_STATE, d))
    \<and> (submission_status p = ''draft'' \<longrightarrow>
         fst (submit request pk now1 now2 d)
           = Inr (p\<lparr>submission_status := ''submitted'', submission_date := Some now1\<rparr>)
         \<and> snd (submit request pk now1 now2 d)
           = d\<lparr>products := (products d)(product_id p \<mapsto>
                    p\<lparr>submission_status := ''submitted'', submission_date := Some now1\<rparr>),
               notifications := notifications d @
                 [product_submitted (p\<lparr>submission_status := ''submitted'',
                                      submission_date := Some now1\<rparr>) now2]\<rparr>
         \<and> notification_type (product_submitted (p\<lparr>submission_status := ''submitted'',
                                      submission_date := Some now1\<rparr>) now2) = ''product_submitted''
         \<and> recipient_id (product_submitted (p\<lparr>submission_status := ''submitted'',
                                      submission_date := Some now1\<rparr>) now2) = product_supplier p)"
  using assms by (simp add: submit_def Let_def store_defs product_submitted_def)

text \<open>Claim C3 at Alice's draft product.\<close>

theorem submit_iff_draft_witness:
  "product_get_object (request_of alice []) ''p1'' shop = Inr widget
   \<and> submission_status widget = ''draft''
   \<and> fst (submit (request_of alice []) ''p1'' 5 6 shop)
       = Inr (widget\<lparr>submission_status := ''submitted'', submission_date := Some 5\<rparr>)
   \<and> length (notifications (snd (submit (request_of alice []) ''p1'' 5 6 shop))) = 1"
proof -
  have h: "product_get_object (request_of alice []) ''p1'' shop = Inr widget"
    by (simp add: product_get_object_def product_get_queryset_def param_defs example_defs)
  have s: "submission_status widget = ''draft''" by (simp add: widget_def)
  show ?thesis using submit_iff_draft [OF h, of 5 6] h s by (simp add: shop_def)
qed

text \<open>
  Claim C9, as the code has it for \<^verbatim>\<open>submit\<close>: the queryset of a caller who is not staff
  holds the caller's own products only, so for a product of another supplier the call
  answers \<^verbatim>\<open>NotFound\<close> and leaves the store as it was.
\<close>

theorem submit_by_stranger_not_found:
  assumes "\<not> is_staff (user request)"
    and "products d pk = Some p"
    and "product_supplier p \<noteq> supplier_id (user request)"
  shows "submit request pk now1 now2 d = (Inl NotFound, d)"
  using assms by (simp add: submit_def product_get_object_def product_get_queryset_def)

text \<open>Claim C9 (as amended) at Mallory submitting Alice's product.\<close>

theorem submit_by_stranger_not_found_witness:
  "\<not> is_staff (user (request_of mallory []))
   \<and> products shop ''p1'' = Some widget
   \<and> product_supplier widget \<noteq> supplier_id (user (request_of mallory []))
   \<and> submit (request_of mallory []) ''p1'' 0 1 shop = (Inl NotFound, shop)"
proof -
  have a: "\<not> is_staff (user (request_of mallory []))" by (simp add: request_of_def mallory_def)
  have b: "products shop ''p1'' = Some widget" by (simp add: shop_def)
  have c: "product_supplier widget \<noteq> supplier_id (user (request_of mallory []))"
    by (simp add: request_of_def mallory_def widget_def)
  show ?thesis using submit_by_stranger_not_found [OF a b c, of 0 1] a b c by simp
qed

text \<open>
  Claim C9 as stated fails: Mallory, neither staff nor the owner, gets \<^verbatim>\<open>NotFound\<close> and
  not \<^verbatim>\<open>PermissionDenied\<close> from \<^verbatim>\<open>submit\<close>, and starts and completes the test on Alice's
  product with success.
\<close>

theorem stranger_counterexample:
  "\<not> is_staff mallory \<and> supplier_id mallory \<noteq> product_supplier widget
   \<and> fst (submit (request_of mallory []) ''p1'' 0 1 shop) = Inl NotFound
   \<and> fst (submit (request_of mallory []) ''p1'' 0 1 shop) \<noteq> Inl PermissionDenied
   \<and> fst (start (request_of mallory []) ''t1'' 0 (lab ''scheduled''))
       = Inr ((drop_test ''scheduled'')\<lparr>status := ''in_progress'', started_at := Some 0\<rparr>)
   \<and> snd (start (request_of mallory []) ''t1'' 0 (lab ''scheduled'')) \<noteq> lab ''scheduled''
   \<and> fst (complete (request_of mallory pass_body) ''t1'' 0 1 (lab ''in_progress''))
       \<noteq> Inl PermissionDenied
   \<and> tests (snd (complete (request_of mallory pass_body) ''t1'' 0 1 (lab ''in_progress''))) ''t1''
       \<noteq> tests (lab ''in_progress'') ''t1''"
  by (simp add: view_defs Let_def store_defs param_defs row_defs example_defs)

subsection \<open>Starting and updating a test\<close>

text \<open>
  Claim C4. For a test that \<^verbatim>\<open>get_object\<close> finds, \<^verbatim>\<open>start\<close> fails exactly when the status
  is not \<^verbatim>\<open>scheduled\<close>; it then answers \<^verbatim>\<open>INVALID_STATE\<close> and leaves the store as it was. On
  a scheduled test, the test is stored as \<^verbatim>\<open>in_progress\<close> with \<^verbatim>\<open>started_at\<close> of the clock,
  and one history row \<^verbatim>\<open>test_started\<close> from \<^verbatim>\<open>scheduled\<close> to \<^verbatim>\<open>in_progress\<close> is appended.
\<close>

theorem start_iff_scheduled:
  assumes "test_get_object request pk d = Inr (t, p)"
  shows "(isl (fst (start request pk now1 d)) \<longleftrightarrow> status t \<noteq> ''scheduled'')
    \<and> (status t \<noteq> ''scheduled'' \<longrightarrow> start request pk now1 d = (Inl INVALID_STATE, d))
    \<and> (status t = ''scheduled'' \<longrightarrow>
         start request pk now1 d =
           (Inr (t\<lparr>status := ''in_progress'', started_at := Some now1\<rparr>),
            d\<lparr>tests := (tests d)(test_id t \<mapsto> t\<lparr>status := ''in_progress'', started_at := Some now1\<rparr>),
              history := history d @
                [\<lparr>history_test = test_id t, changed_by = username (user request),
                  change_type = ''test_started'', old_status = Some ''scheduled'',
                  new_status = Some ''in_progress'', change_description = None\<rparr>]\<rparr>))"
  using assms by (simp add: start_def Let_def store_defs test_started_def)

text \<open>Claim C4 at a scheduled and at a pending test.\<close>

theorem start_iff_scheduled_witness:
  "test_get_object (request_of alice []) ''t1'' (lab ''scheduled'') = Inr (drop_test ''scheduled'', widget)
   \<and> status (drop_test ''scheduled'') = ''scheduled''
   \<and> fst (start (request_of alice []) ''t1'' 7 (lab ''scheduled''))
       = Inr ((drop_test ''scheduled'')\<lparr>status := ''in_progress'', started_at := Some 7\<rparr>)
   \<and> length (history (snd (start (request_of alice []) ''t1'' 7 (lab ''scheduled'')))) = 1
   \<and> test_get_object (request_of alice []) ''t1'' (lab ''pending'') = Inr (drop_test ''pending'', widget)
   \<and> start (request_of alice []) ''t1'' 7 (lab ''pending'') = (Inl INVALID_STATE, lab ''pending'')"
proof -
  have h: "test_get_object (request_of alice []) ''t1'' (lab st) = Inr (drop_test st, widget)" for st
    by (simp add: test_get_object_def test_get_queryset_def param_defs example_defs)
  have s: "status (drop_test st) = st" for st by (simp add: drop_test_def)
  show ?thesis
    using start_iff_scheduled [OF h [of "''scheduled''"], of 7]
      start_iff_scheduled [OF h [of "''pending''"], of 7] h s
    by (simp add: lab_def shop_def)
qed

text \<open>
  Claim C5. On the update path, for the test \<^verbatim>\<open>get_object\<close> finds (the stored row), a
  history row is appended exactly when the validated data holds a status that differs
  from the stored one; it is one row, from the stored status to the written one, and the
  written status is the one stored afterwards.
\<close>

theorem update_history_iff_status_differs:
  assumes "test_get_object request pk d = Inr (t, p)"
  shows "tests d pk = Some t
    \<and> history (snd (test_update_view request pk vd d)) =
        history d @
          (if v_status vd \<noteq> None \<and> v_status vd \<noteq> Some (status t)
           then [\<lparr>history_test = test_id t, changed_by = username (user request),
                   change_type = ''status_update'', old_status = Some (status t),
                   new_status = v_status vd, change_description = None\<rparr>]
           else [])
    \<and> (\<forall>s. v_status vd = Some s \<longrightarrow>
          (\<exists>t'. fst (test_update_view request pk vd d) = Inr t' \<and> status t' = s
                \<and> tests (snd (test_update_view request pk vd d)) (test_id t) = Some t'))"
  using assms
  by (auto simp: test_update_view_def update_def Let_def store_defs test_get_object_def
        set_attrs_def set_attr_def status_updated_def split: option.splits if_splits)

text \<open>
  Claim C5 at a pending test: a write of \<^verbatim>\<open>scheduled\<close>, a write of \<^verbatim>\<open>pending\<close>, and a
  write of the priority only.
\<close>

theorem update_history_iff_status_differs_witness:
  "test_get_object (request_of alice []) ''t1'' (lab ''pending'') = Inr (drop_test ''pending'', widget)
   \<and> map old_status (history (snd (test_update_view (request_of alice []) ''t1''
         (no_data\<lparr>v_status := Some ''scheduled''\<rparr>) (lab ''pending'')))) = [Some ''pending'']
   \<and> map new_status (history (snd (test_update_view (request_of alice []) ''t1''
         (no_data\<lparr>v_status := Some ''scheduled''\<rparr>) (lab ''pending'')))) = [Some ''scheduled'']
   \<and> history (snd (test_update_view (request_of alice []) ''t1''
         (no_data\<lparr>v_status := Some ''pending''\<rparr>) (lab ''pending''))) = []
   \<and> history (snd (test_update_view (request_of alice []) ''t1''
         (no_data\<lparr>v_priority := Some ''high''\<rparr>) (lab ''pending''))) = []"
proof -
  have h: "test_get_object (request_of alice []) ''t1'' (lab st) = Inr (drop_test st, widget)" for st
    by (simp add: test_get_object_def test_get_queryset_def param_defs example_defs)
  have e: "history (lab st) = []" for st by (simp add: lab_def shop_def)
  show ?thesis
    using update_history_iff_status_differs [OF h [of "''pending''"], of "no_data\<lparr>v_status := Some ''scheduled''\<rparr>"]
      update_history_iff_status_differs [OF h [of "''pending''"], of "no_data\<lparr>v_status := Some ''pending''\<rparr>"]
      update_history_iff_status_differs [OF h [of "''pending''"], of "no_data\<lparr>v_priority := Some ''high''\<rparr>"]
      h e
    by (simp add: drop_test_def no_data_def)
qed

subsection \<open>Reports\<close>

text \<open>
  Claim C6, as the code has it: creation stores the report as \<^verbatim>\<open>generating\<close> and starts a
  timer of 5 seconds on it. When the timer's callback runs, the report is stored as
  \<^verbatim>\<open>completed\<close> with a download reference, \<^verbatim>\<open>generated_at\<close> is the first reading of the
  clock and \<^verbatim>\<open>expires_at\<close> is the second reading plus 30 days: that is \<^verbatim>\<open>generated_at\<close> plus
  30 days exactly when the two readings are the same.
\<close>

theorem report_lifecycle:
  assumes "report_perform_create new_id rd d = (r, tm, d1)"
    and "run_timer tm now1 now2 d2 = (r', d3)"
  shows "report_status r = ''generating'' \<and> reports d1 new_id = Some r \<and> interval tm = 5
    \<and> reports d3 new_id = Some r'
    \<and> report_status r' = ''completed''
    \<and> generated_at r' = Some now1
    \<and> expires_at r' = Some (now2 + timedelta_days 30)
    \<and> report_url r' = Some (''/api/v1/reports/'' @ new_id @ ''/download'')
    \<and> (expires_at r' = Some (now1 + timedelta_days 30) \<longleftrightarrow> now1 = now2)"
  using assms
  by (auto simp: report_perform_create_def run_timer_def complete_report_def Let_def store_defs)

text \<open>Claim C6 (as amended) at a report ordered on Alice's product.\<close>

theorem report_lifecycle_witness:
  "report_perform_create ''r1'' order shop = (fst ordered, fst (snd ordered), snd (snd ordered))
   \<and> run_timer (fst (snd ordered)) 0 1 (snd (snd ordered)) = (fst fired, snd fired)
   \<and> report_status (fst ordered) = ''generating''
   \<and> reports (snd fired) ''r1'' = Some (fst fired)
   \<and> report_status (fst fired) = ''completed''
   \<and> generated_at (fst fired) = Some 0
   \<and> expires_at (fst fired) = Some 2592000000001"
proof -
  have a: "report_perform_create ''r1'' order shop = (fst ordered, fst (snd ordered), snd (snd ordered))"
    by (simp add: ordered_def)
  have b: "run_timer (fst (snd ordered)) 0 1 (snd (snd ordered)) = (fst fired, snd fired)"
    by (simp add: fired_def)
  show ?thesis using report_lifecycle [OF a b] a b by (simp add: timedelta_days_def)
qed

text \<open>
  Claim C6 as stated fails: with the second reading of the clock a microsecond after the
  first, \<^verbatim>\<open>expires_at\<close> is not \<^verbatim>\<open>generated_at\<close> plus 30 days.
\<close>

theorem expiry_counterexample:
  "report_status (fst ordered) = ''generating''
   \<and> report_status (fst fired) = ''completed''
   \<and> generated_at (fst fired) = Some 0
   \<and> expires_at (fst fired) \<noteq> Some (0 + timedelta_days 30)"
  by (simp add: fired_def ordered_def view_defs Let_def store_defs param_defs example_defs
        timedelta_days_def)

text \<open>
  Claim C7. For a report that \<^verbatim>\<open>get_object\<close> finds, \<^verbatim>\<open>download\<close> answers \<^verbatim>\<open>NOT_READY\<close>
  exactly when the status is not \<^verbatim>\<open>completed\<close>. For a completed report it answers the
  download descriptor: the report's id, the URL of the report's key in the reports bucket,
  the expiry of 3600 seconds and the message, which is not empty.
\<close>

theorem download_not_ready_iff:
  assumes "report_get_object request pk d = Inr r"
  shows "(download request pk d = Inl NOT_READY \<longleftrightarrow> report_status r \<noteq> ''completed'')
    \<and> (report_status r = ''completed'' \<longrightarrow>
         download request pk d =
           Inr [(''report_id'', report_id r),
                (''download_url'', ''https://reports-bucket.s3.amazonaws.com/'' @ fmt (s3_key r)),
                (''expires_in'', ''3600 seconds''),
                (''message'', ''Use this URL to download the report'')]
         \<and> (\<exists>desc. download request pk d = Inr desc \<and> desc \<noteq> [] \<and> length desc = 4
                \<and> map fst desc = [''report_id'', ''download_url'', ''expires_in'', ''message'']))"
  using assms by (simp add: download_def)

text \<open>
  Claim C7 at a completed report (it has no key in the bucket, which the URL shows as
  \<^verbatim>\<open>None\<close>) and at one still generating.
\<close>

theorem download_not_ready_iff_witness:
  "report_get_object (request_of alice []) ''r1'' (archive ''completed'')
      = Inr (summary_report\<lparr>report_status := ''completed''\<rparr>)
   \<and> report_status (summary_report\<lparr>report_status := ''completed''\<rparr>) = ''completed''
   \<and> download (request_of alice []) ''r1'' (archive ''completed'')
      = Inr [(''report_id'', ''r1''),
             (''download_url'', ''https://reports-bucket.s3.amazonaws.com/None''),
             (''expires_in'', ''3600 seconds''),
             (''message'', ''Use this URL to download the report'')]
   \<and> download (request_of alice []) ''r1'' (archive ''completed'') \<noteq> Inl NOT_READY
   \<and> report_get_object (request_of alice []) ''r1'' (archive ''generating'')
      = Inr (summary_report\<lparr>report_status := ''generating''\<rparr>)
   \<and> download (request_of alice []) ''r1'' (archive ''generating'') = Inl NOT_READY"
proof -
  have h: "report_get_object (request_of alice []) ''r1'' (archive st)
      = Inr (summary_report\<lparr>report_status := st\<rparr>)" for st
    by (simp add: report_get_object_def report_get_queryset_def param_defs example_defs)
  have c: "report_status (summary_report\<lparr>report_status := ''completed''\<rparr>) = ''completed''"
    by simp
  show ?thesis
    using download_not_ready_iff [OF h [of "''completed''"]]
      download_not_ready_iff [OF h [of "''generating''"]] h c
    by (simp add: summary_report_def fmt_def)
qed

end
